theory Spec2Isabelle
  imports Main
begin

text \<open>
  A shallow embedding of the device status protocol core of the Sharp IoT component:
  the enumerations and threshold decoders of \<open>sharp_core.states\<close>, the commands and
  operations of \<open>sharp_devices.device_control\<close>, the property decoder of
  \<open>sharp_devices.device_properties\<close> and the control-and-poll loop of
  \<open>sharp_devices.operations\<close>.  A function that may raise returns a sum, with the
  exception on the left.
\<close>

section \<open>Errors raised by the protocol core\<close>

text \<open>
  Every exception the modelled code raises itself is a Python \<open>ValueError\<close>; the
  constructor argument records which \<open>raise\<close> site produced it together with the
  figures interpolated into its message.  \<open>IndexError\<close> is what a list item
  assignment out of range raises.
\<close>

datatype value_error =
    HeaderLength nat
  | PayloadPosition int
  | PayloadBoundary int
  | EmptyOperationList
  | F3Length nat
  | NotAValidMember string string
  | NonHexadecimal

datatype error = ValueError value_error | IndexError

section \<open>sharp\_core.states\<close>

datatype PowerState = Power_OFF | Power_ON

datatype OperatingMode =
    Mode_OFF | Mode_LOW | Mode_MED | Mode_MAX | Mode_AUTO
  | Mode_POLLEN | Mode_ION_SHOWER | Mode_SLEEP | Mode_SHARP_LIFE_AIR

datatype HumidificationState = Humidification_OFF | Humidification_ON

datatype LEDBrightnessState = LED_OFF | LED_DIM | LED_AUTO

datatype ChildLockState = ChildLock_OFF | ChildLock_ON

datatype QualityLevel = CLEAN | LOW | MEDIUM | HIGH | VERY_HIGH

datatype WaterContainerState = UNKNOWN | FULL | EMPTY

text \<open>The \<open>.value\<close> attribute of each enumeration member.\<close>

fun PowerState_value :: "PowerState \<Rightarrow> string" where
  "PowerState_value Power_OFF = ''00''"
| "PowerState_value Power_ON = ''FF''"

fun OperatingMode_value :: "OperatingMode \<Rightarrow> string" where
  "OperatingMode_value Mode_OFF = ''00''"
| "OperatingMode_value Mode_LOW = ''14''"
| "OperatingMode_value Mode_MED = ''15''"
| "OperatingMode_value Mode_MAX = ''16''"
| "OperatingMode_value Mode_AUTO = ''10''"
| "OperatingMode_value Mode_POLLEN = ''13''"
| "OperatingMode_value Mode_ION_SHOWER = ''40''"
| "OperatingMode_value Mode_SLEEP = ''11''"
| "OperatingMode_value Mode_SHARP_LIFE_AIR = ''20''"

fun HumidificationState_value :: "HumidificationState \<Rightarrow> string" where
  "HumidificationState_value Humidification_OFF = ''00''"
| "HumidificationState_value Humidification_ON = ''FF''"

fun LEDBrightnessState_value :: "LEDBrightnessState \<Rightarrow> string" where
  "LEDBrightnessState_value LED_OFF = ''00''"
| "LEDBrightnessState_value LED_DIM = ''10''"
| "LEDBrightnessState_value LED_AUTO = ''F0''"

fun ChildLockState_value :: "ChildLockState \<Rightarrow> string" where
  "ChildLockState_value ChildLock_OFF = ''00''"
| "ChildLockState_value ChildLock_ON = ''FF''"

text \<open>
  Calling an enumeration class on a string looks the member up by value and raises
  \<open>ValueError\<close> when no member has it.  The comparison is exact (case sensitive).
\<close>

definition PowerState_call :: "string \<Rightarrow> error + PowerState" where
  "PowerState_call s =
     (if s = ''00'' then Inr Power_OFF
      else if s = ''FF'' then Inr Power_ON
      else Inl (ValueError (NotAValidMember s ''PowerState'')))"

definition OperatingMode_call :: "string \<Rightarrow> error + OperatingMode" where
  "OperatingMode_call s =
     (if s = ''00'' then Inr Mode_OFF
      else if s = ''14'' then Inr Mode_LOW
      else if s = ''15'' then Inr Mode_MED
      else if s = ''16'' then Inr Mode_MAX
      else if s = ''10'' then Inr Mode_AUTO
      else if s = ''13'' then Inr Mode_POLLEN
      else if s = ''40'' then Inr Mode_ION_SHOWER
      else if s = ''11'' then Inr Mode_SLEEP
      else if s = ''20'' then Inr Mode_SHARP_LIFE_AIR
      else Inl (ValueError (NotAValidMember s ''OperatingMode'')))"

definition HumidificationState_call :: "string \<Rightarrow> error + HumidificationState" where
  "HumidificationState_call s =
     (if s = ''00'' then Inr Humidification_OFF
      else if s = ''FF'' then Inr Humidification_ON
      else Inl (ValueError (NotAValidMember s ''HumidificationState'')))"

definition LEDBrightnessState_call :: "string \<Rightarrow> error + LEDBrightnessState" where
  "LEDBrightnessState_call s =
     (if s = ''00'' then Inr LED_OFF
      else if s = ''10'' then Inr LED_DIM
      else if s = ''F0'' then Inr LED_AUTO
      else Inl (ValueError (NotAValidMember s ''LEDBrightnessState'')))"

definition ChildLockState_call :: "string \<Rightarrow> error + ChildLockState" where
  "ChildLockState_call s =
     (if s = ''00'' then Inr ChildLock_OFF
      else if s = ''FF'' then Inr ChildLock_ON
      else Inl (ValueError (NotAValidMember s ''ChildLockState'')))"

text \<open>\<open>QualityLevel.parse\<close> and \<open>WaterContainerState.parse\<close>, branch for branch.\<close>

definition QualityLevel_parse :: "int \<Rightarrow> QualityLevel" where
  "QualityLevel_parse int_value =
     (if int_value > 75 then VERY_HIGH
      else if 56 \<le> int_value \<and> int_value \<le> 75 then HIGH
      else if 36 \<le> int_value \<and> int_value < 56 then MEDIUM
      else if 16 \<le> int_value \<and> int_value < 36 then LOW
      else CLEAN)"

definition WaterContainerState_parse :: "int \<Rightarrow> WaterContainerState" where
  "WaterContainerState_parse int_value =
     (if int_value = 0 then UNKNOWN
      else if int_value = 1 then FULL
      else if int_value = 2 then EMPTY
      else UNKNOWN)"

section \<open>Python list and string primitives\<close>

text \<open>
  Strings are lists of characters; a character stands for a code point below 256.
  \<open>setitem xs i v\<close> is the statement \<open>xs[i] = v\<close>: a negative index counts from the
  end, and an index outside the list raises \<open>IndexError\<close>.
\<close>

definition setitem :: "'a list \<Rightarrow> int \<Rightarrow> 'a \<Rightarrow> error + 'a list" where
  "setitem xs i v =
     (if 0 \<le> i \<and> i < int (length xs) then Inr (xs[nat i := v])
      else if i < 0 \<and> - int (length xs) \<le> i then Inr (xs[nat (int (length xs) + i) := v])
      else Inl IndexError)"

text \<open>
  \<open>slice xs a b\<close> is \<open>xs[a:b]\<close> for the non-negative literal bounds the code uses: it
  clips at the end of the list and is empty when \<open>b \<le> a\<close>.
\<close>

definition slice :: "'a list \<Rightarrow> nat \<Rightarrow> nat \<Rightarrow> 'a list" where
  "slice xs a b = take (b - a) (drop a xs)"

section \<open>sharp\_devices.device\_control: the binary-field encoder\<close>

text \<open>
  The loop \<open>for i, char in enumerate(value): payload_chars[position + i] = char\<close>.
  The second argument is the loop counter \<open>i\<close>.
\<close>

fun write_value :: "char list \<Rightarrow> int \<Rightarrow> nat \<Rightarrow> string \<Rightarrow> error + char list" where
  "write_value payload_chars position i [] = Inr payload_chars"
| "write_value payload_chars position i (c # cs) =
     (case setitem payload_chars (position + int i) c of
        Inl e \<Rightarrow> Inl e
      | Inr payload_chars' \<Rightarrow> write_value payload_chars' position (Suc i) cs)"

text \<open>
  \<open>DeviceStatusCommand.build_payload\<close>, as a function of what the three abstract
  getters \<open>get_header\<close>, \<open>get_payload_position\<close> and \<open>get_payload_value\<close> return.
\<close>

definition build_payload :: "string \<Rightarrow> int \<Rightarrow> string \<Rightarrow> error + string" where
  "build_payload header position val =
     (if length header \<noteq> 8 then Inl (ValueError (HeaderLength (length header)))
      else
        let payload_chars = replicate 46 CHR ''0'' in
        if position < 0 \<or> position \<ge> 46 then Inl (ValueError (PayloadPosition position))
        else if position + int (length val) > 46 then Inl (ValueError (PayloadBoundary position))
        else
          (case write_value payload_chars position 0 val of
             Inl e \<Rightarrow> Inl e
           | Inr payload \<Rightarrow> Inr (header @ payload)))"

section \<open>sharp\_devices.device\_control: commands and operations\<close>

text \<open>
  The concrete subclasses of \<open>DeviceStatusCommand\<close>.  \<open>PowerStateCommand\<close> is the
  class \<open>_PowerStateCommand\<close> of the source.
\<close>

datatype device_status_command =
    ChangeModeCommand OperatingMode
  | HumidificationCommand HumidificationState
  | LEDBrightnessCommand LEDBrightnessState
  | ChildLockCommand ChildLockState
  | PowerStateCommand PowerState

fun get_header :: "device_status_command \<Rightarrow> string" where
  "get_header (ChangeModeCommand mode) = ''01000000''"
| "get_header (HumidificationCommand state) = ''00080000''"
| "get_header (LEDBrightnessCommand state) = ''00004000''"
| "get_header (ChildLockCommand state) = ''00400000''"
| "get_header (PowerStateCommand state) = ''00020000''"

fun get_payload_position :: "device_status_command \<Rightarrow> int" where
  "get_payload_position (ChangeModeCommand mode) = 0"
| "get_payload_position (HumidificationCommand state) = 22"
| "get_payload_position (LEDBrightnessCommand state) = 44"
| "get_payload_position (ChildLockCommand state) = 28"
| "get_payload_position (PowerStateCommand state) = 18"

fun get_payload_value :: "device_status_command \<Rightarrow> string" where
  "get_payload_value (ChangeModeCommand mode) = OperatingMode_value mode"
| "get_payload_value (HumidificationCommand state) = HumidificationState_value state"
| "get_payload_value (LEDBrightnessCommand state) = LEDBrightnessState_value state"
| "get_payload_value (ChildLockCommand state) = ChildLockState_value state"
| "get_payload_value (PowerStateCommand state) = PowerState_value state"

definition get_status_code :: "device_status_command \<Rightarrow> string" where
  "get_status_code c = ''F3''"

definition get_binary_payload :: "device_status_command \<Rightarrow> error + string" where
  "get_binary_payload c =
     build_payload (get_header c) (get_payload_position c) (get_payload_value c)"

text \<open>
  A command is a \<open>SingleCommand\<close> (status code and value) or a device status command.
  \<open>PowerCommand\<close> is the class \<open>_PowerCommand\<close>, whose constructor only chooses the
  value handed to \<open>SingleCommand\<close>.
\<close>

datatype command =
    SingleCommand string string
  | DeviceStatusCommand device_status_command

definition PowerCommand :: "PowerState \<Rightarrow> command" where
  "PowerCommand state = SingleCommand ''80'' (if state = Power_ON then ''30'' else ''31'')"

text \<open>
  A status payload is the dictionary with keys \<open>statusCode\<close>, \<open>valueType\<close> and one of
  \<open>valueSingle\<close>, \<open>valueBinary\<close>, each of the latter a dictionary with the one key
  \<open>code\<close>; an absent key is \<open>None\<close>.
\<close>

record status_payload =
  statusCode :: string
  valueType :: string
  valueSingle :: "string option"
  valueBinary :: "string option"

fun get_status_payload :: "command \<Rightarrow> error + status_payload" where
  "get_status_payload (SingleCommand status_code val) =
     Inr \<lparr>statusCode = status_code, valueType = ''valueSingle'',
          valueSingle = Some val, valueBinary = None\<rparr>"
| "get_status_payload (DeviceStatusCommand c) =
     (case get_binary_payload c of
        Inl e \<Rightarrow> Inl e
      | Inr code \<Rightarrow>
          Inr \<lparr>statusCode = get_status_code c, valueType = ''valueBinary'',
               valueSingle = None, valueBinary = Some code\<rparr>)"

text \<open>
  The comprehension \<open>[command.get_status_payload() for command in self.commands]\<close>:
  payloads are produced left to right and the first exception ends it.
\<close>

fun status_payloads :: "command list \<Rightarrow> error + status_payload list" where
  "status_payloads [] = Inr []"
| "status_payloads (c # cs) =
     (case get_status_payload c of
        Inl e \<Rightarrow> Inl e
      | Inr p \<Rightarrow>
          (case status_payloads cs of
             Inl e \<Rightarrow> Inl e
           | Inr ps \<Rightarrow> Inr (p # ps)))"

datatype operation =
    Command command
  | OperationList "command list"
  | RefreshStateOperation

text \<open>The constructors \<open>OperationList.__init__\<close> and \<open>PowerOperation.__init__\<close>.\<close>

definition OperationList_init :: "command list \<Rightarrow> error + operation" where
  "OperationList_init commands =
     (if commands = [] then Inl (ValueError EmptyOperationList)
      else Inr (OperationList commands))"

definition PowerOperation :: "PowerState \<Rightarrow> error + operation" where
  "PowerOperation state =
     OperationList_init [DeviceStatusCommand (PowerStateCommand state), PowerCommand state]"

fun get_status_list :: "operation \<Rightarrow> error + status_payload list" where
  "get_status_list (Command c) =
     (case get_status_payload c of Inl e \<Rightarrow> Inl e | Inr p \<Rightarrow> Inr [p])"
| "get_status_list (OperationList commands) = status_payloads commands"
| "get_status_list RefreshStateOperation = Inr []"

section \<open>sharp\_devices.device\_properties\<close>

text \<open>
  \<open>str.strip()\<close> removes leading and trailing whitespace; among the code points below
  256 those are 9 to 13, 28 to 32, 133 and 160.
\<close>

definition isspace :: "char \<Rightarrow> bool" where
  "isspace c =
     (let n = (of_char c :: nat)
      in (9 \<le> n \<and> n \<le> 13) \<or> (28 \<le> n \<and> n \<le> 32) \<or> n = 133 \<or> n = 160)"

definition strip :: "string \<Rightarrow> string" where
  "strip s = rev (dropWhile isspace (rev (dropWhile isspace s)))"

text \<open>
  \<open>str.lower()\<close> on code points below 256: the ASCII capitals and the Latin-1 capitals
  (192 to 222 without the multiplication sign 215) move up by 32.
\<close>

definition lower_char :: "char \<Rightarrow> char" where
  "lower_char c =
     (let n = (of_char c :: nat)
      in if (65 \<le> n \<and> n \<le> 90) \<or> (192 \<le> n \<and> n \<le> 222 \<and> n \<noteq> 215)
         then char_of (n + 32) else c)"

definition lower :: "string \<Rightarrow> string" where
  "lower s = map lower_char s"

text \<open>
  \<open>bytes.fromhex\<close>: ASCII whitespace is skipped before a byte, a byte is two
  hexadecimal digits, anything else raises \<open>ValueError\<close>.  Bytes are numbers below 256.
\<close>

definition ascii_space :: "char \<Rightarrow> bool" where
  "ascii_space c = (let n = (of_char c :: nat) in (9 \<le> n \<and> n \<le> 13) \<or> n = 32)"

definition hex_digit :: "char \<Rightarrow> nat option" where
  "hex_digit c =
     (let n = (of_char c :: nat)
      in if 48 \<le> n \<and> n \<le> 57 then Some (n - 48)
         else if 97 \<le> n \<and> n \<le> 102 then Some (n - 87)
         else if 65 \<le> n \<and> n \<le> 70 then Some (n - 55)
         else None)"

fun fromhex :: "string \<Rightarrow> error + nat list" where
  "fromhex [] = Inr []"
| "fromhex [c] = (if ascii_space c then Inr [] else Inl (ValueError NonHexadecimal))"
| "fromhex (c # d # rest) =
     (if ascii_space c then fromhex (d # rest)
      else
        (case (hex_digit c, hex_digit d) of
           (Some hi, Some lo) \<Rightarrow>
             (case fromhex rest of
                Inl e \<Rightarrow> Inl e
              | Inr data \<Rightarrow> Inr ((hi * 16 + lo) # data))
         | _ \<Rightarrow> Inl (ValueError NonHexadecimal)))"

text \<open>\<open>int.from_bytes(bs, 'big')\<close> and \<open>int.from_bytes(bs, 'little')\<close>.\<close>

definition from_bytes_big :: "nat list \<Rightarrow> int" where
  "from_bytes_big bs = foldl (\<lambda>acc b. acc * 256 + int b) 0 bs"

definition from_bytes_little :: "nat list \<Rightarrow> int" where
  "from_bytes_little bs = from_bytes_big (rev bs)"

record F1Property =
  temperature :: int
  humidity :: int
  pm25_level :: int

definition F1Property_from_hex :: "string \<Rightarrow> error + F1Property" where
  "F1Property_from_hex hex_string =
     (let hex_string = strip hex_string in
      case fromhex hex_string of
        Inl e \<Rightarrow> Inl e
      | Inr data \<Rightarrow>
          Inr \<lparr>temperature = from_bytes_big (slice data 3 4),
               humidity = from_bytes_big (slice data 4 5),
               pm25_level = from_bytes_little (slice data 28 30)\<rparr>)"

record F2Property =
  air_quality :: QualityLevel
  dust_level :: QualityLevel
  odor_level :: QualityLevel
  water_container :: WaterContainerState

definition F2Property_from_hex :: "string \<Rightarrow> error + F2Property" where
  "F2Property_from_hex hex_string =
     (let hex_string = strip hex_string in
      case fromhex hex_string of
        Inl e \<Rightarrow> Inl e
      | Inr data \<Rightarrow>
          Inr \<lparr>air_quality = QualityLevel_parse (from_bytes_big (slice data 17 18)),
               dust_level = QualityLevel_parse (from_bytes_big (slice data 15 16)),
               odor_level = QualityLevel_parse (from_bytes_big (slice data 14 15)),
               water_container =
                 WaterContainerState_parse (from_bytes_big (slice data 18 19))\<rparr>)"

record F3Property =
  operating_mode :: OperatingMode
  humidification :: HumidificationState
  power_state :: PowerState
  child_lock :: ChildLockState
  led_brightness :: LEDBrightnessState

text \<open>
  \<open>F3Property.from_hex\<close>.  The keyword arguments of the constructor call are
  evaluated in the order written, so the first field whose code is not a member decides
  the exception.
\<close>

definition F3Property_from_hex :: "string \<Rightarrow> error + F3Property" where
  "F3Property_from_hex hex_string =
     (let hex_string = strip hex_string in
      if length hex_string \<noteq> 54 then Inl (ValueError (F3Length (length hex_string)))
      else
        let payload = drop 8 hex_string in
        case OperatingMode_call (slice payload 0 2) of
          Inl e \<Rightarrow> Inl e
        | Inr m \<Rightarrow>
        (case HumidificationState_call (slice payload 22 24) of
          Inl e \<Rightarrow> Inl e
        | Inr h \<Rightarrow>
        (case PowerState_call (slice payload 18 20) of
          Inl e \<Rightarrow> Inl e
        | Inr p \<Rightarrow>
        (case ChildLockState_call (slice payload 28 30) of
          Inl e \<Rightarrow> Inl e
        | Inr c \<Rightarrow>
        (case LEDBrightnessState_call (slice payload 44 46) of
          Inl e \<Rightarrow> Inl e
        | Inr l \<Rightarrow>
            Inr \<lparr>operating_mode = m, humidification = h, power_state = p,
                 child_lock = c, led_brightness = l\<rparr>)))))"

text \<open>
  The property-query response.  An entry of the \<open>status\<close> list is read through
  \<open>status.get('statusCode', '')\<close> and \<open>status.get('valueBinary', {}).get('code', '')\<close>,
  so it is modelled by these two optional strings; \<open>None\<close> is an absent key.
\<close>

record status_entry =
  entry_statusCode :: "string option"
  entry_code :: "string option"

record device_property =
  dp_echonetNode :: "string option"
  dp_label :: "string option"
  dp_status :: "status_entry list option"

record DeviceProperties =
  echonet_node :: string
  label :: string
  f1_property :: "F1Property option"
  f2_property :: "F2Property option"
  f3_property :: "F3Property option"

definition get_or :: "'a option \<Rightarrow> 'a \<Rightarrow> 'a" where
  "get_or v d = (case v of None \<Rightarrow> d | Some x \<Rightarrow> x)"

text \<open>
  The loop over the status list; the state is the triple of the three local variables
  \<open>f1_property\<close>, \<open>f2_property\<close>, \<open>f3_property\<close>.
\<close>

fun decode_status_list ::
  "status_entry list \<Rightarrow> F1Property option \<times> F2Property option \<times> F3Property option \<Rightarrow>
   error + (F1Property option \<times> F2Property option \<times> F3Property option)" where
  "decode_status_list [] acc = Inr acc"
| "decode_status_list (status # rest) (f1, f2, f3) =
     (let status_code = lower (get_or (entry_statusCode status) []);
          code = get_or (entry_code status) []
      in if status_code = ''f1'' then
           (case F1Property_from_hex code of
              Inl e \<Rightarrow> Inl e
            | Inr v \<Rightarrow> decode_status_list rest (Some v, f2, f3))
         else if status_code = ''f2'' then
           (case F2Property_from_hex code of
              Inl e \<Rightarrow> Inl e
            | Inr v \<Rightarrow> decode_status_list rest (f1, Some v, f3))
         else if status_code = ''f3'' then
           (case F3Property_from_hex code of
              Inl e \<Rightarrow> Inl e
            | Inr v \<Rightarrow> decode_status_list rest (f1, f2, Some v))
         else decode_status_list rest (f1, f2, f3))"

definition from_api_response :: "device_property option \<Rightarrow> error + DeviceProperties" where
  "from_api_response response_data =
     (let device_property =
            get_or response_data
              \<lparr>dp_echonetNode = None, dp_label = None, dp_status = None\<rparr>;
          status_list = get_or (dp_status device_property) []
      in case decode_status_list status_list (None, None, None) of
           Inl e \<Rightarrow> Inl e
         | Inr (f1, f2, f3) \<Rightarrow>
             Inr \<lparr>echonet_node = get_or (dp_echonetNode device_property) [],
                  label = get_or (dp_label device_property) [],
                  f1_property = f1, f2_property = f2, f3_property = f3\<rparr>)"

section \<open>sharp\_devices.operations: the execution engine\<close>

text \<open>
  The HTTP client is the environment.  \<open>post_json\<close> either raises or returns the parsed
  response.  Of the control response the code reads \<open>controlList\<close> and the \<open>id\<close> of its
  first entry; of a status response it reads \<open>resultList\<close> and, of its first entry,
  \<open>status\<close> and \<open>errorCode\<close>.  \<open>None\<close> is an absent key or a JSON null.
\<close>

datatype 'a reply = Raises | Returns 'a

type_synonym control_result = "string option list option"

record result_entry =
  result_status :: "string option"
  result_errorCode :: "string option"

type_synonym status_result = "result_entry list option"

text \<open>
  The control request carries the status list; a status request carries the operation
  id, and the replies may differ from one check to the next (the second argument is the
  loop counter).
\<close>

record client =
  post_control :: "status_payload list \<Rightarrow> control_result reply"
  post_status :: "string \<Rightarrow> nat \<Rightarrow> status_result reply"

text \<open>One constructor for each logging call of \<open>execute_operation\<close>.\<close>

datatype log_entry =
    Error_NoOperationId
  | Info_ControlSent string
  | Debug_NoStatusResult nat
  | Debug_StatusCheck nat "string option" "string option"
  | Error_OperationFailed "string option"
  | Info_OperationCompleted
  | Info_ChecksWithoutSuccess
  | Error_DuringControl

text \<open>What a run leaves behind besides its return value.\<close>

record trace =
  control_posts :: nat
  status_posts :: nat
  sleeps :: nat
  logs :: "log_entry list"

definition no_trace :: trace where
  "no_trace = \<lparr>control_posts = 0, status_posts = 0, sleeps = 0, logs = []\<rparr>"

definition logged :: "log_entry \<Rightarrow> trace \<Rightarrow> trace" where
  "logged e tr = tr\<lparr>logs := logs tr @ [e]\<rparr>"

text \<open>
  The loop \<open>for i in range(10)\<close>, over the list of the remaining values of \<open>i\<close>.  An
  exception of \<open>post_json\<close> is caught by the enclosing handler, which returns \<open>False\<close>.
\<close>

fun status_checks ::
  "(nat \<Rightarrow> status_result reply) \<Rightarrow> nat list \<Rightarrow> trace \<Rightarrow> bool \<times> trace" where
  "status_checks post [] tr = (False, logged Info_ChecksWithoutSuccess tr)"
| "status_checks post (i # rest) tr =
     (let tr = tr\<lparr>sleeps := Suc (sleeps tr), status_posts := Suc (status_posts tr)\<rparr>
      in case post i of
           Raises \<Rightarrow> (False, logged Error_DuringControl tr)
         | Returns None \<Rightarrow> status_checks post rest (logged (Debug_NoStatusResult (i + 1)) tr)
         | Returns (Some []) \<Rightarrow>
             status_checks post rest (logged (Debug_NoStatusResult (i + 1)) tr)
         | Returns (Some (result # others)) \<Rightarrow>
             (let tr = logged (Debug_StatusCheck (i + 1) (result_status result)
                                 (result_errorCode result)) tr
              in if result_status result = Some ''error'' then
                   (False, logged (Error_OperationFailed (result_errorCode result)) tr)
                 else if result_errorCode result = None
                         \<and> (result_status result = Some ''unmatch''
                            \<or> result_status result = Some ''success'') then
                   (True, logged Info_OperationCompleted tr)
                 else status_checks post rest tr))"

text \<open>
  \<open>SharpOperations.execute_operation\<close>.  The status list is built before the \<open>try\<close>, so
  an exception of \<open>get_status_list\<close> reaches the caller; everything after it returns a
  boolean.  The test \<open>not control_result["controlList"][0].get("id")\<close> holds of an absent
  id and of the empty string.
\<close>

definition execute_operation :: "client \<Rightarrow> operation \<Rightarrow> (error + bool) \<times> trace" where
  "execute_operation cl operation =
     (case get_status_list operation of
        Inl e \<Rightarrow> (Inl e, no_trace)
      | Inr status_list \<Rightarrow>
          (let tr = no_trace\<lparr>control_posts := 1\<rparr>
           in case post_control cl status_list of
                Raises \<Rightarrow> (Inr False, logged Error_DuringControl tr)
              | Returns None \<Rightarrow> (Inr False, logged Error_NoOperationId tr)
              | Returns (Some []) \<Rightarrow> (Inr False, logged Error_NoOperationId tr)
              | Returns (Some (None # others)) \<Rightarrow>
                  (Inr False, logged Error_NoOperationId tr)
              | Returns (Some (Some operation_id # others)) \<Rightarrow>
                  (if operation_id = [] then (Inr False, logged Error_NoOperationId tr)
                   else
                     let (r, tr') = status_checks (post_status cl operation_id) [0..<10]
                                      (logged (Info_ControlSent operation_id) tr)
                     in (Inr r, tr'))))"

text \<open>\<open>SharpOperations.execute_commands\<close>.\<close>

definition execute_commands :: "client \<Rightarrow> command list \<Rightarrow> (error + bool) \<times> trace" where
  "execute_commands cl commands =
     (case OperationList_init commands of
        Inl e \<Rightarrow> (Inl e, no_trace)
      | Inr operation \<Rightarrow> execute_operation cl operation)"

text \<open>
  Two readings of a status reply, used to state what the loop does.  \<open>no_result\<close> is
  the test \<open>not status_result.get("resultList")\<close>.  \<open>pending\<close> holds of a reply after
  which the loop goes on to the next check: no result, or a first result that takes
  neither \<open>return\<close>.
\<close>

fun no_result :: "status_result reply \<Rightarrow> bool" where
  "no_result Raises = False"
| "no_result (Returns None) = True"
| "no_result (Returns (Some [])) = True"
| "no_result (Returns (Some (result # others))) = False"

fun pending :: "status_result reply \<Rightarrow> bool" where
  "pending Raises = False"
| "pending (Returns None) = True"
| "pending (Returns (Some [])) = True"
| "pending (Returns (Some (result # others))) =
     (result_status result \<noteq> Some ''error''
      \<and> (result_errorCode result \<noteq> None
           \<or> (result_status result \<noteq> Some ''unmatch''
               \<and> result_status result \<noteq> Some ''success'')))"

text \<open>
  Sample environments for evaluating the engine: the control request is answered with
  the operation id \<open>op-1\<close>; the status request is answered, in turn, with a success at
  the third check, with an error carrying code \<open>E1\<close> or \<open>E2\<close>, and with no result at
  every check.  In the last environment the control request itself raises.
\<close>

definition client_success_at_third :: client where
  "client_success_at_third =
     \<lparr>post_control = (\<lambda>status_list. Returns (Some [Some ''op-1''])),
      post_status = (\<lambda>operation_id i.
         if i < 2 then Returns (Some [])
         else Returns (Some [\<lparr>result_status = Some ''success'', result_errorCode = None\<rparr>]))\<rparr>"

definition client_error :: "string \<Rightarrow> client" where
  "client_error code =
     \<lparr>post_control = (\<lambda>status_list. Returns (Some [Some ''op-1''])),
      post_status = (\<lambda>operation_id i.
         Returns (Some [\<lparr>result_status = Some ''error'', result_errorCode = Some code\<rparr>]))\<rparr>"

definition client_no_result :: client where
  "client_no_result =
     \<lparr>post_control = (\<lambda>status_list. Returns (Some [Some ''op-1''])),
      post_status = (\<lambda>operation_id i. Returns (Some []))\<rparr>"

definition client_unreachable :: client where
  "client_unreachable =
     \<lparr>post_control = (\<lambda>status_list. Raises),
      post_status = (\<lambda>operation_id i. Raises)\<rparr>"

section \<open>Properties of the encoder\<close>

lemma setitem_in_range:
  "0 \<le> i \<Longrightarrow> i < int (length xs) \<Longrightarrow> setitem xs i v = Inr (xs[nat i := v])"
  by (simp add: setitem_def)

lemma write_value_in_range:
  "0 \<le> position \<Longrightarrow> position + int i + int (length cs) \<le> int (length pc) \<Longrightarrow>
   write_value pc position i cs =
     Inr (take (nat position + i) pc @ cs @ drop (nat position + i + length cs) pc)"
proof (induction cs arbitrary: pc i)
  case Nil
  then show ?case by simp
next
  case (Cons c cs)
  let ?k = "nat position + i"
  have k: "nat (position + int i) = ?k" using Cons.prems by simp
  have lt: "?k < length pc" using Cons.prems by simp
  have set: "setitem pc (position + int i) c = Inr (pc[?k := c])"
    using Cons.prems setitem_in_range[of "position + int i" pc c] k by simp
  have step: "write_value (pc[?k := c]) position (Suc i) cs =
      Inr (take (nat position + Suc i) (pc[?k := c]) @ cs
           @ drop (nat position + Suc i + length cs) (pc[?k := c]))"
    using Cons.prems by (intro Cons.IH) simp_all
  have t: "take (nat position + Suc i) (pc[?k := c]) = take ?k pc @ [c]"
    using lt by (simp add: take_Suc_conv_app_nth)
  have d: "drop (nat position + Suc i + length cs) (pc[?k := c])
           = drop (?k + length (c # cs)) pc"
    by simp
  show ?case using set step t d by simp
qed

lemma build_payload_valid:
  assumes "length header = 8" "0 \<le> position" "position < 46"
    "position + int (length val) \<le> 46"
  shows "build_payload header position val =
     Inr (header @ replicate (nat position) CHR ''0'' @ val
          @ replicate (46 - (nat position + length val)) CHR ''0'')"
proof -
  have "write_value (replicate 46 CHR ''0'') position 0 val =
      Inr (take (nat position + 0) (replicate 46 CHR ''0'') @ val
           @ drop (nat position + 0 + length val) (replicate 46 CHR ''0''))"
    using assms by (intro write_value_in_range) simp_all
  moreover have "min 46 (nat position) = nat position" using assms by simp
  ultimately show ?thesis using assms by (simp add: build_payload_def)
qed

text \<open>
  Claim C1.  For an 8-character header, a position from 0 to 45 and a value that ends
  within the field area, \<open>build_payload\<close> returns a 54-character blob whose slice
  \<open>[8 + position, 8 + position + len(value))\<close> is the value, and every other character
  of the field area is \<open>'0'\<close>.
\<close>

theorem build_payload_roundtrip:
  assumes "length header = 8" "0 \<le> position" "position < 46"
    "position + int (length val) \<le> 46"
  shows "\<exists>blob. build_payload header position val = Inr blob
           \<and> length blob = 54
           \<and> slice blob (8 + nat position) (8 + nat position + length val) = val
           \<and> (\<forall>k<46. k < nat position \<or> nat position + length val \<le> k
                 \<longrightarrow> blob ! (8 + k) = CHR ''0'')"
proof -
  let ?p = "nat position"
  let ?blob = "header @ replicate ?p CHR ''0'' @ val
               @ replicate (46 - (?p + length val)) CHR ''0''"
  have fit: "?p + length val \<le> 46" using assms by linarith
  have b: "build_payload header position val = Inr ?blob"
    using assms by (rule build_payload_valid)
  have len: "length ?blob = 54" using assms fit by simp
  have sl: "slice ?blob (8 + ?p) (8 + ?p + length val) = val"
    using assms by (simp add: slice_def)
  have zero: "?blob ! (8 + k) = CHR ''0''"
    if "k < 46" "k < ?p \<or> ?p + length val \<le> k" for k
  proof -
    have "?blob ! (8 + k) = (replicate ?p CHR ''0'' @ val
               @ replicate (46 - (?p + length val)) CHR ''0'') ! k"
      using assms by (simp add: nth_append)
    also have "\<dots> = CHR ''0''"
      using that fit by (auto simp: nth_append)
    finally show ?thesis .
  qed
  show ?thesis using b len sl zero by blast
qed

theorem build_payload_roundtrip_witness:
  "\<exists>blob. build_payload ''00020000'' 18 ''FF'' = Inr blob
           \<and> length blob = 54
           \<and> slice blob 26 28 = ''FF''
           \<and> blob ! 8 = CHR ''0'' \<and> blob ! 25 = CHR ''0''
           \<and> blob ! 28 = CHR ''0'' \<and> blob ! 53 = CHR ''0''"
proof -
  obtain blob where b: "build_payload ''00020000'' 18 ''FF'' = Inr blob"
      "length blob = 54"
      "slice blob (8 + nat 18) (8 + nat 18 + length ''FF'') = ''FF''"
      and z: "\<And>k. k < 46 \<Longrightarrow> k < nat 18 \<or> nat 18 + length ''FF'' \<le> k
                 \<Longrightarrow> blob ! (8 + k) = CHR ''0''"
    using build_payload_roundtrip [of "''00020000''" 18 "''FF''"] by auto
  from z [of 0] z [of 17] z [of 20] z [of 45]
  have "blob ! 8 = CHR ''0'' \<and> blob ! 25 = CHR ''0''
        \<and> blob ! 28 = CHR ''0'' \<and> blob ! 53 = CHR ''0''"
    by simp
  with b show ?thesis by auto
qed

text \<open>
  Claim C6.  \<open>build_payload\<close> raises exactly when the header is not 8 characters long,
  or the position is negative or at least 46, or the value would end beyond character
  46; the three checks are made in this order, each with its own message.  Otherwise it
  returns the header followed by a field area of 46 characters, 54 characters in all.
\<close>

theorem build_payload_raises:
  "(if length header \<noteq> 8 then
      build_payload header position val = Inl (ValueError (HeaderLength (length header)))
    else if position < 0 \<or> 46 \<le> position then
      build_payload header position val = Inl (ValueError (PayloadPosition position))
    else if 46 < position + int (length val) then
      build_payload header position val = Inl (ValueError (PayloadBoundary position))
    else
      (\<exists>field. build_payload header position val = Inr (header @ field)
          \<and> length field = 46 \<and> length (header @ field) = 54))
   \<and> ((\<exists>e. build_payload header position val = Inl e)
        = (length header \<noteq> 8 \<or> position < 0 \<or> 46 \<le> position
            \<or> 46 < position + int (length val)))"
proof (cases "length header = 8 \<and> 0 \<le> position \<and> position < 46
              \<and> position + int (length val) \<le> 46")
  case True
  then have fit: "nat position + length val \<le> 46" by linarith
  from True have "build_payload header position val =
     Inr (header @ replicate (nat position) CHR ''0'' @ val
          @ replicate (46 - (nat position + length val)) CHR ''0'')"
    by (intro build_payload_valid) simp_all
  then show ?thesis using True fit by simp
next
  case False
  then show ?thesis by (auto simp: build_payload_def)
qed

theorem build_payload_raises_witness:
  "build_payload ''0002000'' 18 ''FF'' = Inl (ValueError (HeaderLength 7))
   \<and> build_payload ''00020000'' 46 '''' = Inl (ValueError (PayloadPosition 46))
   \<and> build_payload ''00020000'' (- 1) ''FF'' = Inl (ValueError (PayloadPosition (- 1)))
   \<and> build_payload ''00020000'' 45 ''FF'' = Inl (ValueError (PayloadBoundary 45))
   \<and> (\<exists>field. build_payload ''00020000'' 44 ''FF'' = Inr (''00020000'' @ field)
         \<and> length field = 46)"
  using build_payload_raises [of "''0002000''" 18 "''FF''"]
    build_payload_raises [of "''00020000''" 46 "''''"]
    build_payload_raises [of "''00020000''" "- 1" "''FF''"]
    build_payload_raises [of "''00020000''" 45 "''FF''"]
    build_payload_raises [of "''00020000''" 44 "''FF''"]
  by simp

section \<open>Properties of the threshold decoder\<close>

text \<open>
  Claim C9.  \<open>QualityLevel.parse\<close> is a total function of the integers with the five
  buckets above 75, 56 to 75, 36 to 55, 16 to 35 and below 16; the eight boundary
  readings fall as listed.
\<close>

theorem QualityLevel_parse_buckets:
  "(QualityLevel_parse v = VERY_HIGH) = (75 < v)
   \<and> (QualityLevel_parse v = HIGH) = (56 \<le> v \<and> v \<le> 75)
   \<and> (QualityLevel_parse v = MEDIUM) = (36 \<le> v \<and> v < 56)
   \<and> (QualityLevel_parse v = LOW) = (16 \<le> v \<and> v < 36)
   \<and> (QualityLevel_parse v = CLEAN) = (v < 16)
   \<and> map QualityLevel_parse [15, 16, 35, 36, 55, 56, 75, 76]
       = [CLEAN, LOW, LOW, MEDIUM, MEDIUM, HIGH, HIGH, VERY_HIGH]"
  by (simp add: QualityLevel_parse_def)

section \<open>Properties of commands and operations\<close>

lemma PowerState_value_length: "length (PowerState_value p) = 2"
  by (cases p) simp_all

lemma OperatingMode_value_length: "length (OperatingMode_value m) = 2"
  by (cases m) simp_all

lemma HumidificationState_value_length: "length (HumidificationState_value h) = 2"
  by (cases h) simp_all

lemma LEDBrightnessState_value_length: "length (LEDBrightnessState_value l) = 2"
  by (cases l) simp_all

lemma ChildLockState_value_length: "length (ChildLockState_value c) = 2"
  by (cases c) simp_all

lemmas value_lengths = PowerState_value_length OperatingMode_value_length
  HumidificationState_value_length LEDBrightnessState_value_length
  ChildLockState_value_length

lemma get_binary_payload_closed:
  "get_binary_payload c =
     Inr (get_header c @ replicate (nat (get_payload_position c)) CHR ''0''
          @ get_payload_value c
          @ replicate (44 - nat (get_payload_position c)) CHR ''0'')"
proof -
  have "length (get_header c) = 8" by (cases c) simp_all
  moreover have "0 \<le> get_payload_position c" "get_payload_position c < 46"
    by (cases c; simp)+
  moreover have l: "length (get_payload_value c) = 2"
    by (cases c) (simp_all add: value_lengths)
  moreover have "get_payload_position c + int (length (get_payload_value c)) \<le> 46"
    unfolding l by (cases c) simp_all
  ultimately show ?thesis
    unfolding get_binary_payload_def using build_payload_valid l by simp
qed

lemma get_status_payload_total: "\<exists>p. get_status_payload c = Inr p"
  by (cases c) (simp_all add: get_binary_payload_closed)

lemma status_payloads_total:
  "\<exists>ps. status_payloads cs = Inr ps \<and> length ps = length cs
        \<and> (\<forall>i<length cs. get_status_payload (cs ! i) = Inr (ps ! i))"
proof (induction cs)
  case Nil
  then show ?case by simp
next
  case (Cons c cs)
  obtain p where p: "get_status_payload c = Inr p"
    using get_status_payload_total by blast
  obtain ps where ps: "status_payloads cs = Inr ps" "length ps = length cs"
    "\<forall>i<length cs. get_status_payload (cs ! i) = Inr (ps ! i)"
    using Cons.IH by blast
  have "\<forall>i<length (c # cs). get_status_payload ((c # cs) ! i) = Inr ((p # ps) ! i)"
    using p ps(3) by (simp add: nth_Cons split: nat.split)
  then show ?case using p ps by simp
qed

text \<open>
  Claim C5.  For either power state, \<open>PowerOperation(s)\<close> is constructed without error
  and its status list has exactly two payloads, in this order: the binary \<open>F3\<close> payload
  whose 54-character blob is the header \<open>00020000\<close> and a field area that is all
  \<open>'0'\<close> except for the power code (\<open>FF\<close> for on, \<open>00\<close> for off) at position 18, then
  the single-value payload with status code \<open>80\<close> and value \<open>30\<close> for on, \<open>31\<close> for off.
\<close>

theorem PowerOperation_status_list:
  "\<exists>operation blob.
     PowerOperation s = Inr operation
     \<and> get_status_list operation =
         Inr [\<lparr>statusCode = ''F3'', valueType = ''valueBinary'', valueSingle = None,
               valueBinary = Some blob\<rparr>,
              \<lparr>statusCode = ''80'', valueType = ''valueSingle'',
               valueSingle = Some (if s = Power_ON then ''30'' else ''31''),
               valueBinary = None\<rparr>]
     \<and> blob = ''00020000'' @ replicate 18 CHR ''0''
                @ (if s = Power_ON then ''FF'' else ''00'') @ replicate 26 CHR ''0''
     \<and> length blob = 54
     \<and> slice (drop 8 blob) 18 20 = (if s = Power_ON then ''FF'' else ''00'')"
  by (cases s)
    (simp_all add: PowerOperation_def OperationList_init_def PowerCommand_def
      get_binary_payload_closed get_status_code_def slice_def)

text \<open>
  Claim C8.  Constructing an \<open>OperationList\<close> from no commands raises; through
  \<open>execute_commands\<close> the exception reaches the caller with no request posted and
  nothing logged.  \<open>RefreshStateOperation\<close> has the empty status list.  For a non-empty
  list of commands the construction succeeds, and the status list has one payload for
  each command, the i-th being the payload of the i-th command.
\<close>

theorem OperationList_status_list:
  "OperationList_init [] = Inl (ValueError EmptyOperationList)
   \<and> execute_commands cl [] = (Inl (ValueError EmptyOperationList), no_trace)
   \<and> get_status_list RefreshStateOperation = Inr []
   \<and> (commands \<noteq> [] \<longrightarrow>
        OperationList_init commands = Inr (OperationList commands)
        \<and> (\<exists>ps. get_status_list (OperationList commands) = Inr ps
              \<and> length ps = length commands
              \<and> (\<forall>i<length commands. get_status_payload (commands ! i) = Inr (ps ! i))))"
  using status_payloads_total [of commands]
  by (simp add: OperationList_init_def execute_commands_def)

theorem OperationList_status_list_witness:
  "OperationList_init [DeviceStatusCommand (ChangeModeCommand Mode_LOW), SingleCommand ''80'' ''30'']
     = Inr (OperationList
              [DeviceStatusCommand (ChangeModeCommand Mode_LOW), SingleCommand ''80'' ''30''])
   \<and> (\<exists>ps. get_status_list
               (OperationList
                  [DeviceStatusCommand (ChangeModeCommand Mode_LOW), SingleCommand ''80'' ''30''])
              = Inr ps
          \<and> length ps = 2
          \<and> get_status_payload (DeviceStatusCommand (ChangeModeCommand Mode_LOW)) = Inr (ps ! 0)
          \<and> get_status_payload (SingleCommand ''80'' ''30'') = Inr (ps ! 1))"
proof -
  let ?cs = "[DeviceStatusCommand (ChangeModeCommand Mode_LOW), SingleCommand ''80'' ''30'']"
  from OperationList_status_list [of client_no_result ?cs]
  obtain ps where init: "OperationList_init ?cs = Inr (OperationList ?cs)"
    and ps: "get_status_list (OperationList ?cs) = Inr ps" "length ps = length ?cs"
    and nth: "\<And>i. i < length ?cs \<Longrightarrow> get_status_payload (?cs ! i) = Inr (ps ! i)"
    by auto
  from nth [of 0] nth [of 1]
  have "get_status_payload (DeviceStatusCommand (ChangeModeCommand Mode_LOW)) = Inr (ps ! 0)"
    "get_status_payload (SingleCommand ''80'' ''30'') = Inr (ps ! 1)"
    by simp_all
  with init ps show ?thesis by auto
qed

section \<open>Properties of the property decoder\<close>

lemma PowerState_call_iff: "(PowerState_call s = Inr p) = (PowerState_value p = s)"
  by (cases p) (auto simp: PowerState_call_def)

lemma OperatingMode_call_iff: "(OperatingMode_call s = Inr m) = (OperatingMode_value m = s)"
  by (cases m) (auto simp: OperatingMode_call_def)

lemma HumidificationState_call_iff:
  "(HumidificationState_call s = Inr h) = (HumidificationState_value h = s)"
  by (cases h) (auto simp: HumidificationState_call_def)

lemma LEDBrightnessState_call_iff:
  "(LEDBrightnessState_call s = Inr l) = (LEDBrightnessState_value l = s)"
  by (cases l) (auto simp: LEDBrightnessState_call_def)

lemma ChildLockState_call_iff:
  "(ChildLockState_call s = Inr c) = (ChildLockState_value c = s)"
  by (cases c) (auto simp: ChildLockState_call_def)

lemmas call_iffs = PowerState_call_iff OperatingMode_call_iff HumidificationState_call_iff
  LEDBrightnessState_call_iff ChildLockState_call_iff

lemma length_dropWhile_eq: "length (dropWhile P xs) = length xs \<Longrightarrow> dropWhile P xs = xs"
proof (cases xs)
  case Nil
  then show ?thesis by simp
next
  case (Cons x ys)
  assume l: "length (dropWhile P xs) = length xs"
  show ?thesis
  proof (cases "P x")
    case True
    have "length (dropWhile P ys) \<le> length ys" by (rule length_dropWhile_le)
    with True Cons l show ?thesis by simp
  next
    case False
    with Cons show ?thesis by simp
  qed
qed

lemma length_strip_le: "length (strip s) \<le> length s"
proof -
  have "length (strip s) \<le> length (dropWhile isspace s)"
    unfolding strip_def using length_dropWhile_le [of isspace "rev (dropWhile isspace s)"]
    by simp
  also have "\<dots> \<le> length s" by (rule length_dropWhile_le)
  finally show ?thesis .
qed

lemma length_strip_eq: "length (strip s) = length s \<Longrightarrow> strip s = s"
proof -
  assume l: "length (strip s) = length s"
  let ?a = "dropWhile isspace s"
  have 1: "length (strip s) \<le> length ?a"
    unfolding strip_def using length_dropWhile_le [of isspace "rev ?a"] by simp
  have 2: "length ?a \<le> length s" by (rule length_dropWhile_le)
  from l 1 2 have "length ?a = length s" by simp
  then have a: "?a = s" by (rule length_dropWhile_eq)
  with l have "length (dropWhile isspace (rev s)) = length (rev s)"
    by (simp add: strip_def)
  then have "dropWhile isspace (rev s) = rev s" by (rule length_dropWhile_eq)
  with a show ?thesis by (simp add: strip_def)
qed

lemma F3Property_from_hex_length:
  "length (strip s) \<noteq> 54 \<Longrightarrow>
   F3Property_from_hex s = Inl (ValueError (F3Length (length (strip s))))"
  by (simp add: F3Property_from_hex_def)

lemma PowerState_call_error: "PowerState_call s = Inl e \<Longrightarrow> \<exists>v. e = ValueError v"
  by (auto simp: PowerState_call_def split: if_splits)

lemma OperatingMode_call_error: "OperatingMode_call s = Inl e \<Longrightarrow> \<exists>v. e = ValueError v"
  by (auto simp: OperatingMode_call_def split: if_splits)

lemma HumidificationState_call_error:
  "HumidificationState_call s = Inl e \<Longrightarrow> \<exists>v. e = ValueError v"
  by (auto simp: HumidificationState_call_def split: if_splits)

lemma LEDBrightnessState_call_error:
  "LEDBrightnessState_call s = Inl e \<Longrightarrow> \<exists>v. e = ValueError v"
  by (auto simp: LEDBrightnessState_call_def split: if_splits)

lemma ChildLockState_call_error:
  "ChildLockState_call s = Inl e \<Longrightarrow> \<exists>v. e = ValueError v"
  by (auto simp: ChildLockState_call_def split: if_splits)

lemmas call_errors = PowerState_call_error OperatingMode_call_error
  HumidificationState_call_error LEDBrightnessState_call_error ChildLockState_call_error

text \<open>The decoder after its length check, on the five codes read.\<close>

lemma F3Property_from_hex_54:
  assumes "length (strip s) = 54"
  shows "F3Property_from_hex s =
     (case OperatingMode_call (slice (drop 8 (strip s)) 0 2) of
        Inl e \<Rightarrow> Inl e
      | Inr m \<Rightarrow>
      (case HumidificationState_call (slice (drop 8 (strip s)) 22 24) of
        Inl e \<Rightarrow> Inl e
      | Inr h \<Rightarrow>
      (case PowerState_call (slice (drop 8 (strip s)) 18 20) of
        Inl e \<Rightarrow> Inl e
      | Inr p \<Rightarrow>
      (case ChildLockState_call (slice (drop 8 (strip s)) 28 30) of
        Inl e \<Rightarrow> Inl e
      | Inr c \<Rightarrow>
      (case LEDBrightnessState_call (slice (drop 8 (strip s)) 44 46) of
        Inl e \<Rightarrow> Inl e
      | Inr l \<Rightarrow>
          Inr \<lparr>operating_mode = m, humidification = h, power_state = p,
               child_lock = c, led_brightness = l\<rparr>)))))"
  using assms by (simp add: F3Property_from_hex_def Let_def)

lemma F3Property_from_hex_iff:
  assumes "length (strip s) = 54"
  shows "(F3Property_from_hex s = Inr r) =
     (OperatingMode_value (operating_mode r) = slice (drop 8 (strip s)) 0 2
      \<and> PowerState_value (power_state r) = slice (drop 8 (strip s)) 18 20
      \<and> HumidificationState_value (humidification r) = slice (drop 8 (strip s)) 22 24
      \<and> ChildLockState_value (child_lock r) = slice (drop 8 (strip s)) 28 30
      \<and> LEDBrightnessState_value (led_brightness r) = slice (drop 8 (strip s)) 44 46)"
  (is "?L = ?R")
proof
  assume ?L
  then show ?R
    unfolding F3Property_from_hex_54 [OF assms]
    by (auto split: sum.splits simp: call_iffs)
next
  assume ?R
  then have "OperatingMode_call (slice (drop 8 (strip s)) 0 2) = Inr (operating_mode r)"
    "PowerState_call (slice (drop 8 (strip s)) 18 20) = Inr (power_state r)"
    "HumidificationState_call (slice (drop 8 (strip s)) 22 24) = Inr (humidification r)"
    "ChildLockState_call (slice (drop 8 (strip s)) 28 30) = Inr (child_lock r)"
    "LEDBrightnessState_call (slice (drop 8 (strip s)) 44 46) = Inr (led_brightness r)"
    by (simp_all add: call_iffs)
  then show ?L
    unfolding F3Property_from_hex_54 [OF assms] by simp
qed

lemma F3Property_from_hex_error:
  "F3Property_from_hex s = Inl e \<Longrightarrow> \<exists>v. e = ValueError v"
proof (cases "length (strip s) = 54")
  case True
  assume "F3Property_from_hex s = Inl e"
  then show ?thesis
    unfolding F3Property_from_hex_54 [OF True]
    by (auto split: sum.splits dest: call_errors)
next
  case False
  assume "F3Property_from_hex s = Inl e"
  with False show ?thesis by (auto simp: F3Property_from_hex_length)
qed

lemma decode_ChangeModeCommand:
  "F3Property_from_hex
     (get_header (ChangeModeCommand m)
      @ replicate (nat (get_payload_position (ChangeModeCommand m))) CHR ''0''
      @ get_payload_value (ChangeModeCommand m)
      @ replicate (44 - nat (get_payload_position (ChangeModeCommand m))) CHR ''0'')
   = Inr \<lparr>operating_mode = m, humidification = Humidification_OFF,
          power_state = Power_OFF, child_lock = ChildLock_OFF, led_brightness = LED_OFF\<rparr>"
  by (cases m; hypsubst; code_simp)

lemma decode_HumidificationCommand:
  "F3Property_from_hex
     (get_header (HumidificationCommand h)
      @ replicate (nat (get_payload_position (HumidificationCommand h))) CHR ''0''
      @ get_payload_value (HumidificationCommand h)
      @ replicate (44 - nat (get_payload_position (HumidificationCommand h))) CHR ''0'')
   = Inr \<lparr>operating_mode = Mode_OFF, humidification = h,
          power_state = Power_OFF, child_lock = ChildLock_OFF, led_brightness = LED_OFF\<rparr>"
  by (cases h; hypsubst; code_simp)

lemma decode_LEDBrightnessCommand:
  "F3Property_from_hex
     (get_header (LEDBrightnessCommand l)
      @ replicate (nat (get_payload_position (LEDBrightnessCommand l))) CHR ''0''
      @ get_payload_value (LEDBrightnessCommand l)
      @ replicate (44 - nat (get_payload_position (LEDBrightnessCommand l))) CHR ''0'')
   = Inr \<lparr>operating_mode = Mode_OFF, humidification = Humidification_OFF,
          power_state = Power_OFF, child_lock = ChildLock_OFF, led_brightness = l\<rparr>"
  by (cases l; hypsubst; code_simp)

lemma decode_ChildLockCommand:
  "F3Property_from_hex
     (get_header (ChildLockCommand c)
      @ replicate (nat (get_payload_position (ChildLockCommand c))) CHR ''0''
      @ get_payload_value (ChildLockCommand c)
      @ replicate (44 - nat (get_payload_position (ChildLockCommand c))) CHR ''0'')
   = Inr \<lparr>operating_mode = Mode_OFF, humidification = Humidification_OFF,
          power_state = Power_OFF, child_lock = c, led_brightness = LED_OFF\<rparr>"
  by (cases c; hypsubst; code_simp)

lemma decode_PowerStateCommand:
  "F3Property_from_hex
     (get_header (PowerStateCommand p)
      @ replicate (nat (get_payload_position (PowerStateCommand p))) CHR ''0''
      @ get_payload_value (PowerStateCommand p)
      @ replicate (44 - nat (get_payload_position (PowerStateCommand p))) CHR ''0'')
   = Inr \<lparr>operating_mode = Mode_OFF, humidification = Humidification_OFF,
          power_state = p, child_lock = ChildLock_OFF, led_brightness = LED_OFF\<rparr>"
  by (cases p; hypsubst; code_simp)

text \<open>
  Claim C7, as stated, fails: \<open>from_hex\<close> strips the input before it checks the length,
  so an input of 55 characters, a well-formed blob followed by a blank, is decoded.
\<close>

theorem F3Property_from_hex_padded_counterexample:
  "length ''00020000000000000000000000FF00000000000000000000000000 '' = 55
   \<and> F3Property_from_hex ''00020000000000000000000000FF00000000000000000000000000 ''
     = Inr \<lparr>operating_mode = Mode_OFF, humidification = Humidification_OFF,
            power_state = Power_ON, child_lock = ChildLock_OFF, led_brightness = LED_OFF\<rparr>"
  by code_simp

text \<open>
  Claim C7, amended.  \<open>F3Property.from_hex\<close> measures the input after stripping the
  surrounding whitespace: it raises the length error whenever the stripped input is not
  54 characters long.  When it is, the result is the snapshot whose five members have
  the codes found at positions 0 (operating mode), 18 (power), 22 (humidification),
  28 (child lock) and 44 (LED brightness) of the field area, and an exception if one of
  the codes belongs to no member.  Decoding the blob built by any of the five device
  status commands gives back the state the command carries, every other field off.
\<close>

theorem F3Property_from_hex_mirrors_encoder:
  "(length (strip s) \<noteq> 54 \<longrightarrow>
      F3Property_from_hex s = Inl (ValueError (F3Length (length (strip s)))))
   \<and> (length (strip s) = 54 \<longrightarrow>
        (F3Property_from_hex s = Inr r) =
        (OperatingMode_value (operating_mode r) = slice (drop 8 (strip s)) 0 2
         \<and> PowerState_value (power_state r) = slice (drop 8 (strip s)) 18 20
         \<and> HumidificationState_value (humidification r) = slice (drop 8 (strip s)) 22 24
         \<and> ChildLockState_value (child_lock r) = slice (drop 8 (strip s)) 28 30
         \<and> LEDBrightnessState_value (led_brightness r) = slice (drop 8 (strip s)) 44 46))
   \<and> (\<exists>blob. get_binary_payload (ChangeModeCommand m) = Inr blob
         \<and> F3Property_from_hex blob =
             Inr \<lparr>operating_mode = m, humidification = Humidification_OFF,
                  power_state = Power_OFF, child_lock = ChildLock_OFF,
                  led_brightness = LED_OFF\<rparr>)
   \<and> (\<exists>blob. get_binary_payload (PowerStateCommand p) = Inr blob
         \<and> F3Property_from_hex blob =
             Inr \<lparr>operating_mode = Mode_OFF, humidification = Humidification_OFF,
                  power_state = p, child_lock = ChildLock_OFF,
                  led_brightness = LED_OFF\<rparr>)
   \<and> (\<exists>blob. get_binary_payload (HumidificationCommand h) = Inr blob
         \<and> F3Property_from_hex blob =
             Inr \<lparr>operating_mode = Mode_OFF, humidification = h,
                  power_state = Power_OFF, child_lock = ChildLock_OFF,
                  led_brightness = LED_OFF\<rparr>)
   \<and> (\<exists>blob. get_binary_payload (ChildLockCommand c) = Inr blob
         \<and> F3Property_from_hex blob =
             Inr \<lparr>operating_mode = Mode_OFF, humidification = Humidification_OFF,
                  power_state = Power_OFF, child_lock = c,
                  led_brightness = LED_OFF\<rparr>)
   \<and> (\<exists>blob. get_binary_payload (LEDBrightnessCommand l) = Inr blob
         \<and> F3Property_from_hex blob =
             Inr \<lparr>operating_mode = Mode_OFF, humidification = Humidification_OFF,
                  power_state = Power_OFF, child_lock = ChildLock_OFF,
                  led_brightness = l\<rparr>)"
  using F3Property_from_hex_length [of s] F3Property_from_hex_iff [of s r]
    decode_ChangeModeCommand [of m] decode_PowerStateCommand [of p]
    decode_HumidificationCommand [of h] decode_ChildLockCommand [of c]
    decode_LEDBrightnessCommand [of l]
  unfolding get_binary_payload_closed
  by blast

theorem F3Property_from_hex_mirrors_encoder_witness:
  "F3Property_from_hex ''00020000'' = Inl (ValueError (F3Length 8))
   \<and> F3Property_from_hex ''01000000140000000000000000FF00FF0000FF00000000000000F0 ''
     = Inr \<lparr>operating_mode = Mode_LOW, humidification = Humidification_ON,
            power_state = Power_ON, child_lock = ChildLock_ON, led_brightness = LED_AUTO\<rparr>"
proof -
  let ?short = "''00020000''"
  let ?s = "''01000000140000000000000000FF00FF0000FF00000000000000F0 ''"
  let ?r = "\<lparr>operating_mode = Mode_LOW, humidification = Humidification_ON,
            power_state = Power_ON, child_lock = ChildLock_ON, led_brightness = LED_AUTO\<rparr>"
  have 1: "length (strip ?short) \<noteq> 54" by code_simp
  have 2: "length (strip ?short) = 8" by code_simp
  have 3: "length (strip ?s) = 54" by code_simp
  have 4: "OperatingMode_value (operating_mode ?r) = slice (drop 8 (strip ?s)) 0 2
         \<and> PowerState_value (power_state ?r) = slice (drop 8 (strip ?s)) 18 20
         \<and> HumidificationState_value (humidification ?r) = slice (drop 8 (strip ?s)) 22 24
         \<and> ChildLockState_value (child_lock ?r) = slice (drop 8 (strip ?s)) 28 30
         \<and> LEDBrightnessState_value (led_brightness ?r) = slice (drop 8 (strip ?s)) 44 46"
    by code_simp
  from F3Property_from_hex_mirrors_encoder [of ?short] 1 2
  have a: "F3Property_from_hex ?short = Inl (ValueError (F3Length 8))" by simp
  from F3Property_from_hex_mirrors_encoder [of ?s ?r] 3 4
  have b: "F3Property_from_hex ?s = Inr ?r" by blast
  from a b show ?thesis by simp
qed

text \<open>
  Claim C10.  For an input of 54 characters, \<open>F3Property.from_hex\<close> raises whenever the
  two characters at position 0, 18, 22, 28 or 44 of the field area are not the value
  of a member of the enumeration decoded there.
\<close>

theorem F3Property_from_hex_rejects_non_members:
  assumes "length s = 54"
    and "(\<forall>m. OperatingMode_value m \<noteq> slice (drop 8 s) 0 2)
         \<or> (\<forall>p. PowerState_value p \<noteq> slice (drop 8 s) 18 20)
         \<or> (\<forall>h. HumidificationState_value h \<noteq> slice (drop 8 s) 22 24)
         \<or> (\<forall>c. ChildLockState_value c \<noteq> slice (drop 8 s) 28 30)
         \<or> (\<forall>l. LEDBrightnessState_value l \<noteq> slice (drop 8 s) 44 46)"
  shows "\<exists>v. F3Property_from_hex s = Inl (ValueError v)"
proof (cases "strip s = s")
  case True
  with assms(1) have len: "length (strip s) = 54" by simp
  have "F3Property_from_hex s \<noteq> Inr r" for r
    using F3Property_from_hex_iff [OF len, of r] assms(2) True by auto
  then obtain e where "F3Property_from_hex s = Inl e"
    by (cases "F3Property_from_hex s") auto
  then show ?thesis using F3Property_from_hex_error by blast
next
  case False
  then have "length (strip s) \<noteq> length s" using length_strip_eq by blast
  with assms(1) have "length (strip s) \<noteq> 54" by simp
  then show ?thesis using F3Property_from_hex_length by blast
qed

theorem F3Property_from_hex_rejects_non_members_witness:
  "length ''00020000000000000000000000ff00000000000000000000000000'' = 54
   \<and> (\<exists>v. F3Property_from_hex ''00020000000000000000000000ff00000000000000000000000000''
          = Inl (ValueError v))"
proof -
  let ?s = "''00020000000000000000000000ff00000000000000000000000000''"
  have len: "length ?s = 54" by simp
  have code: "slice (drop 8 ?s) 18 20 = ''ff''" by code_simp
  have "PowerState_value p \<noteq> slice (drop 8 ?s) 18 20" for p
    unfolding code by (cases p) simp_all
  then have "\<exists>v. F3Property_from_hex ?s = Inl (ValueError v)"
    using F3Property_from_hex_rejects_non_members [of ?s] len by blast
  with len show ?thesis by blast
qed

text \<open>
  Claim C3.  The claim does not hold of the \<open>F1\<close> and \<open>F2\<close> decoders, which check no
  length: a property response whose \<open>F1\<close> blob has only four bytes and whose \<open>F2\<close> blob
  is empty is decoded without error.  The temperature byte is read, and every reading
  whose bytes are missing comes out as zero, that is, as humidity 0, PM2.5 level 0,
  quality \<open>CLEAN\<close> and water container \<open>UNKNOWN\<close>.
\<close>

theorem from_api_response_truncated_blobs:
  "from_api_response
     (Some \<lparr>dp_echonetNode = Some ''0001'', dp_label = Some ''purifier'',
            dp_status = Some [\<lparr>entry_statusCode = Some ''F1'', entry_code = Some ''0000001A''\<rparr>,
                              \<lparr>entry_statusCode = Some ''F2'', entry_code = Some []\<rparr>]\<rparr>)
   = Inr \<lparr>echonet_node = ''0001'', label = ''purifier'',
          f1_property = Some \<lparr>temperature = 26, humidity = 0, pm25_level = 0\<rparr>,
          f2_property = Some \<lparr>air_quality = CLEAN, dust_level = CLEAN, odor_level = CLEAN,
                              water_container = UNKNOWN\<rparr>,
          f3_property = None\<rparr>"
  by code_simp

section \<open>Properties of the execution engine\<close>

lemma no_result_pending: "no_result r \<Longrightarrow> pending r"
  by (cases r rule: no_result.cases) simp_all

lemma status_checks_step_pending:
  "pending (post i) \<Longrightarrow>
   \<exists>tr'. status_checks post (i # rest) tr = status_checks post rest tr'
         \<and> status_posts tr' = Suc (status_posts tr)
         \<and> control_posts tr' = control_posts tr"
  by (cases "post i" rule: pending.cases) (auto simp: logged_def Let_def)

lemma status_checks_skip_pending:
  "\<forall>i\<in>set xs. pending (post i) \<Longrightarrow>
   \<exists>tr'. status_checks post (xs @ ys) tr = status_checks post ys tr'
         \<and> status_posts tr' = status_posts tr + length xs
         \<and> control_posts tr' = control_posts tr"
proof (induction xs arbitrary: tr)
  case Nil
  show ?case by (rule exI [of _ tr]) simp
next
  case (Cons x xs)
  from Cons.prems have "pending (post x)" by simp
  then obtain tr1 where 1: "status_checks post (x # (xs @ ys)) tr = status_checks post (xs @ ys) tr1"
      "status_posts tr1 = Suc (status_posts tr)" "control_posts tr1 = control_posts tr"
    using status_checks_step_pending by blast
  from Cons.prems have "\<forall>i\<in>set xs. pending (post i)" by simp
  then obtain tr2 where 2: "status_checks post (xs @ ys) tr1 = status_checks post ys tr2"
      "status_posts tr2 = status_posts tr1 + length xs" "control_posts tr2 = control_posts tr1"
    using Cons.IH by blast
  have "status_checks post ((x # xs) @ ys) tr = status_checks post ys tr2"
    using 1(1) 2(1) by (simp only: append_Cons)
  moreover have "status_posts tr2 = status_posts tr + length (x # xs)"
    using 1(2) 2(2) by simp
  moreover have "control_posts tr2 = control_posts tr"
    using 1(3) 2(3) by simp
  ultimately show ?case by blast
qed

lemma status_checks_exhausted:
  assumes "\<forall>i\<in>set xs. pending (post i)"
  shows "\<exists>tr'. status_checks post xs tr = (False, tr')
         \<and> status_posts tr' = status_posts tr + length xs
         \<and> control_posts tr' = control_posts tr
         \<and> last (logs tr') = Info_ChecksWithoutSuccess"
proof -
  obtain tr1 where "status_checks post (xs @ []) tr = status_checks post [] tr1"
      "status_posts tr1 = status_posts tr + length xs" "control_posts tr1 = control_posts tr"
    using status_checks_skip_pending [OF assms] by blast
  then have "status_checks post xs tr = (False, logged Info_ChecksWithoutSuccess tr1)
      \<and> status_posts (logged Info_ChecksWithoutSuccess tr1) = status_posts tr + length xs
      \<and> control_posts (logged Info_ChecksWithoutSuccess tr1) = control_posts tr
      \<and> last (logs (logged Info_ChecksWithoutSuccess tr1)) = Info_ChecksWithoutSuccess"
    by (simp add: logged_def)
  then show ?thesis by blast
qed

lemma status_checks_error:
  assumes "post i = Returns (Some (result # others))"
    and "result_status result = Some ''error''"
  shows "\<exists>tr'. status_checks post (i # rest) tr = (False, tr')
         \<and> status_posts tr' = Suc (status_posts tr)
         \<and> control_posts tr' = control_posts tr
         \<and> last (logs tr') = Error_OperationFailed (result_errorCode result)"
  using assms by (simp add: logged_def Let_def)

lemma status_checks_success:
  assumes "post i = Returns (Some (result # others))"
    and "result_errorCode result = None"
    and "result_status result = Some ''unmatch'' \<or> result_status result = Some ''success''"
  shows "\<exists>tr'. status_checks post (i # rest) tr = (True, tr')
         \<and> status_posts tr' = Suc (status_posts tr)
         \<and> control_posts tr' = control_posts tr
         \<and> last (logs tr') = Info_OperationCompleted"
  using assms by (auto simp: logged_def Let_def)

lemma range_split: "k < n \<Longrightarrow> [0..<n] = [0..<k] @ k # [Suc k..<n]"
  by (metis upt_conv_Cons upt_add_eq_append le_add_diff_inverse less_imp_le zero_le)

lemma execute_operation_polling:
  assumes "get_status_list operation = Inr status_list"
    and "post_control cl status_list = Returns (Some (Some operation_id # others))"
    and "operation_id \<noteq> []"
  shows "execute_operation cl operation =
     (case status_checks (post_status cl operation_id) [0..<10]
             (logged (Info_ControlSent operation_id) (no_trace\<lparr>control_posts := 1\<rparr>)) of
        (r, tr') \<Rightarrow> (Inr r, tr'))"
  using assms by (simp add: execute_operation_def Let_def split: prod.splits)

text \<open>
  Claim C2, as stated, fails: the value returned for an error with code \<open>E1\<close> is the
  boolean \<open>False\<close>, the same as for code \<open>E2\<close> and the same as when the checks run out.
\<close>

theorem execute_operation_returns_no_code_counterexample:
  "fst (execute_operation (client_error ''E1'') RefreshStateOperation) = Inr False
   \<and> fst (execute_operation (client_error ''E2'') RefreshStateOperation) = Inr False
   \<and> fst (execute_operation client_no_result RefreshStateOperation) = Inr False"
  by code_simp

text \<open>
  Claim C2, amended.  After a control request that returned an operation id:
  when the first two status checks have no result and the third reports \<open>success\<close>
  without an error code, \<open>execute_operation\<close> returns \<open>True\<close> after exactly 3 status
  requests; when the first check reports \<open>error\<close> with code \<open>E1\<close>, it returns \<open>False\<close>
  after exactly 1 status request, the code appearing only in the log; when all 10
  checks have no result, it returns \<open>False\<close> after exactly 10 status requests.
\<close>

theorem execute_operation_poll_simulation:
  assumes "get_status_list operation = Inr status_list"
    and "post_control cl status_list = Returns (Some (Some operation_id # others))"
    and "operation_id \<noteq> []"
  shows "(no_result (post_status cl operation_id 0)
          \<and> no_result (post_status cl operation_id 1)
          \<and> post_status cl operation_id 2 =
              Returns (Some [\<lparr>result_status = Some ''success'', result_errorCode = None\<rparr>])
          \<longrightarrow> fst (execute_operation cl operation) = Inr True
              \<and> status_posts (snd (execute_operation cl operation)) = 3)
       \<and> (post_status cl operation_id 0 =
              Returns (Some [\<lparr>result_status = Some ''error'', result_errorCode = Some ''E1''\<rparr>])
          \<longrightarrow> fst (execute_operation cl operation) = Inr False
              \<and> status_posts (snd (execute_operation cl operation)) = 1
              \<and> last (logs (snd (execute_operation cl operation)))
                  = Error_OperationFailed (Some ''E1''))
       \<and> ((\<forall>i<10. no_result (post_status cl operation_id i))
          \<longrightarrow> fst (execute_operation cl operation) = Inr False
              \<and> status_posts (snd (execute_operation cl operation)) = 10
              \<and> last (logs (snd (execute_operation cl operation)))
                  = Info_ChecksWithoutSuccess)"
proof -
  let ?post = "post_status cl operation_id"
  let ?tr0 = "logged (Info_ControlSent operation_id) (no_trace\<lparr>control_posts := 1\<rparr>)"
  have run: "execute_operation cl operation =
     (case status_checks ?post [0..<10] ?tr0 of (r, tr') \<Rightarrow> (Inr r, tr'))"
    using assms by (rule execute_operation_polling)
  have zero: "status_posts ?tr0 = 0" by (simp add: logged_def no_trace_def)
  have a: "fst (execute_operation cl operation) = Inr True
           \<and> status_posts (snd (execute_operation cl operation)) = 3"
    if h: "no_result (?post 0)" "no_result (?post 1)"
      "?post 2 = Returns (Some [\<lparr>result_status = Some ''success'', result_errorCode = None\<rparr>])"
  proof -
    have "\<forall>i\<in>set [0..<2]. pending (?post i)"
      using h(1,2) no_result_pending by (auto simp: less_Suc_eq numeral_2_eq_2)
    then obtain tr1 where 1: "status_checks ?post ([0..<2] @ 2 # [Suc 2..<10]) ?tr0
          = status_checks ?post (2 # [Suc 2..<10]) tr1"
        "status_posts tr1 = status_posts ?tr0 + length [0..<2]"
      using status_checks_skip_pending by blast
    obtain tr2 where 2: "status_checks ?post (2 # [Suc 2..<10]) tr1 = (True, tr2)"
        "status_posts tr2 = Suc (status_posts tr1)"
      using status_checks_success [where post = "?post" and i = 2, OF h(3)] by auto
    have "[0..<10] = [0..<2] @ 2 # [Suc 2..<10]" by (rule range_split) simp
    with 1 2 have "status_checks ?post [0..<10] ?tr0 = (True, tr2)" by simp
    with run 1(2) 2(2) zero show ?thesis by simp
  qed
  have b: "fst (execute_operation cl operation) = Inr False
           \<and> status_posts (snd (execute_operation cl operation)) = 1
           \<and> last (logs (snd (execute_operation cl operation)))
               = Error_OperationFailed (Some ''E1'')"
    if h: "?post 0 =
        Returns (Some [\<lparr>result_status = Some ''error'', result_errorCode = Some ''E1''\<rparr>])"
  proof -
    obtain tr1 where 1: "status_checks ?post (0 # [Suc 0..<10]) ?tr0 = (False, tr1)"
        "status_posts tr1 = Suc (status_posts ?tr0)"
        "last (logs tr1) = Error_OperationFailed (Some ''E1'')"
      using status_checks_error [where post = "?post" and i = 0, OF h] by auto
    have "[0..<10] = 0 # [Suc 0..<10]" by (simp add: upt_conv_Cons)
    with 1 have "status_checks ?post [0..<10] ?tr0 = (False, tr1)" by simp
    with run 1(2,3) zero show ?thesis by simp
  qed
  have c: "fst (execute_operation cl operation) = Inr False
           \<and> status_posts (snd (execute_operation cl operation)) = 10
           \<and> last (logs (snd (execute_operation cl operation))) = Info_ChecksWithoutSuccess"
    if h: "\<forall>i<10. no_result (?post i)"
  proof -
    have "\<forall>i\<in>set [0..<10]. pending (?post i)"
      using h no_result_pending by auto
    then obtain tr1 where 1: "status_checks ?post [0..<10] ?tr0 = (False, tr1)"
        "status_posts tr1 = status_posts ?tr0 + length [0..<10]"
        "last (logs tr1) = Info_ChecksWithoutSuccess"
      using status_checks_exhausted by blast
    with run zero show ?thesis by simp
  qed
  from a b c show ?thesis by blast
qed

theorem execute_operation_poll_simulation_witness:
  "fst (execute_operation client_success_at_third RefreshStateOperation) = Inr True
   \<and> status_posts (snd (execute_operation client_success_at_third RefreshStateOperation)) = 3
   \<and> fst (execute_operation (client_error ''E1'') RefreshStateOperation) = Inr False
   \<and> status_posts (snd (execute_operation (client_error ''E1'') RefreshStateOperation)) = 1
   \<and> last (logs (snd (execute_operation (client_error ''E1'') RefreshStateOperation)))
       = Error_OperationFailed (Some ''E1'')
   \<and> fst (execute_operation client_no_result RefreshStateOperation) = Inr False
   \<and> status_posts (snd (execute_operation client_no_result RefreshStateOperation)) = 10"
  using
    execute_operation_poll_simulation
      [of RefreshStateOperation "[]" client_success_at_third "''op-1''" "[]"]
    execute_operation_poll_simulation
      [of RefreshStateOperation "[]" "client_error ''E1''" "''op-1''" "[]"]
    execute_operation_poll_simulation
      [of RefreshStateOperation "[]" client_no_result "''op-1''" "[]"]
  by (simp add: client_success_at_third_def client_error_def client_no_result_def)

text \<open>
  Claim C4, as stated, fails: a device error, a failed submission and ten checks
  without a result all give the caller the same value.
\<close>

theorem execute_operation_same_value_counterexample:
  "fst (execute_operation (client_error ''E1'') RefreshStateOperation)
     = fst (execute_operation client_no_result RefreshStateOperation)
   \<and> fst (execute_operation client_unreachable RefreshStateOperation)
     = fst (execute_operation client_no_result RefreshStateOperation)"
  by code_simp

text \<open>
  Claim C4, amended.  \<open>execute_operation\<close> returns a boolean, and it is \<open>False\<close> in each
  of these cases: the control request raises or yields no operation id (no status
  request is made); some check, after checks that all left the loop running, reports
  status \<open>error\<close> (that check is the last request); all 10 checks leave the loop
  running.  Only the last log entry and the number of requests tell the cases apart.
\<close>

theorem execute_operation_failures_return_False:
  assumes "get_status_list operation = Inr status_list"
  shows "((post_control cl status_list = Raises
           \<or> post_control cl status_list = Returns None
           \<or> post_control cl status_list = Returns (Some [])
           \<or> (\<exists>others. post_control cl status_list = Returns (Some (None # others)))
           \<or> (\<exists>others. post_control cl status_list = Returns (Some (Some [] # others))))
          \<longrightarrow> fst (execute_operation cl operation) = Inr False
              \<and> status_posts (snd (execute_operation cl operation)) = 0)
       \<and> (post_control cl status_list = Returns (Some (Some operation_id # others))
           \<and> operation_id \<noteq> []
          \<longrightarrow> (k < 10
                \<and> (\<forall>i<k. pending (post_status cl operation_id i))
                \<and> post_status cl operation_id k = Returns (Some (result # results))
                \<and> result_status result = Some ''error''
               \<longrightarrow> fst (execute_operation cl operation) = Inr False
                   \<and> status_posts (snd (execute_operation cl operation)) = Suc k
                   \<and> last (logs (snd (execute_operation cl operation)))
                       = Error_OperationFailed (result_errorCode result))
              \<and> ((\<forall>i<10. pending (post_status cl operation_id i))
               \<longrightarrow> fst (execute_operation cl operation) = Inr False
                   \<and> status_posts (snd (execute_operation cl operation)) = 10
                   \<and> last (logs (snd (execute_operation cl operation)))
                       = Info_ChecksWithoutSuccess))"
proof -
  have submit: "fst (execute_operation cl operation) = Inr False
                \<and> status_posts (snd (execute_operation cl operation)) = 0"
    if "post_control cl status_list = Raises
        \<or> post_control cl status_list = Returns None
        \<or> post_control cl status_list = Returns (Some [])
        \<or> (\<exists>others. post_control cl status_list = Returns (Some (None # others)))
        \<or> (\<exists>others. post_control cl status_list = Returns (Some (Some [] # others)))"
    using that assms
    by (auto simp: execute_operation_def Let_def logged_def no_trace_def)
  have polling: "(k < 10
                \<and> (\<forall>i<k. pending (post_status cl operation_id i))
                \<and> post_status cl operation_id k = Returns (Some (result # results))
                \<and> result_status result = Some ''error''
               \<longrightarrow> fst (execute_operation cl operation) = Inr False
                   \<and> status_posts (snd (execute_operation cl operation)) = Suc k
                   \<and> last (logs (snd (execute_operation cl operation)))
                       = Error_OperationFailed (result_errorCode result))
              \<and> ((\<forall>i<10. pending (post_status cl operation_id i))
               \<longrightarrow> fst (execute_operation cl operation) = Inr False
                   \<and> status_posts (snd (execute_operation cl operation)) = 10
                   \<and> last (logs (snd (execute_operation cl operation)))
                       = Info_ChecksWithoutSuccess)"
    if ok: "post_control cl status_list = Returns (Some (Some operation_id # others))"
      "operation_id \<noteq> []"
  proof -
    let ?post = "post_status cl operation_id"
    let ?tr0 = "logged (Info_ControlSent operation_id) (no_trace\<lparr>control_posts := 1\<rparr>)"
    have run: "execute_operation cl operation =
       (case status_checks ?post [0..<10] ?tr0 of (r, tr') \<Rightarrow> (Inr r, tr'))"
      using assms ok by (rule execute_operation_polling)
    have zero: "status_posts ?tr0 = 0" by (simp add: logged_def no_trace_def)
    have err: "fst (execute_operation cl operation) = Inr False
               \<and> status_posts (snd (execute_operation cl operation)) = Suc k
               \<and> last (logs (snd (execute_operation cl operation)))
                   = Error_OperationFailed (result_errorCode result)"
      if h: "k < 10" "\<forall>i<k. pending (?post i)"
        "?post k = Returns (Some (result # results))" "result_status result = Some ''error''"
    proof -
      have "\<forall>i\<in>set [0..<k]. pending (?post i)" using h(2) by simp
      then obtain tr1 where 1: "status_checks ?post ([0..<k] @ k # [Suc k..<10]) ?tr0
            = status_checks ?post (k # [Suc k..<10]) tr1"
          "status_posts tr1 = status_posts ?tr0 + length [0..<k]"
        using status_checks_skip_pending by blast
      obtain tr2 where 2: "status_checks ?post (k # [Suc k..<10]) tr1 = (False, tr2)"
          "status_posts tr2 = Suc (status_posts tr1)"
          "last (logs tr2) = Error_OperationFailed (result_errorCode result)"
        using status_checks_error [where post = "?post" and i = k, OF h(3,4)] by auto
      have "[0..<10] = [0..<k] @ k # [Suc k..<10]" using h(1) by (rule range_split)
      with 1 2 have "status_checks ?post [0..<10] ?tr0 = (False, tr2)" by simp
      with run 1(2) 2(2,3) zero show ?thesis by simp
    qed
    have out: "fst (execute_operation cl operation) = Inr False
               \<and> status_posts (snd (execute_operation cl operation)) = 10
               \<and> last (logs (snd (execute_operation cl operation)))
                   = Info_ChecksWithoutSuccess"
      if h: "\<forall>i<10. pending (?post i)"
    proof -
      have "\<forall>i\<in>set [0..<10]. pending (?post i)" using h by simp
      then obtain tr1 where 1: "status_checks ?post [0..<10] ?tr0 = (False, tr1)"
          "status_posts tr1 = status_posts ?tr0 + length [0..<10]"
          "last (logs tr1) = Info_ChecksWithoutSuccess"
        using status_checks_exhausted by blast
      with run zero show ?thesis by simp
    qed
    from err out show ?thesis by blast
  qed
  from submit polling show ?thesis by blast
qed

theorem execute_operation_failures_return_False_witness:
  "fst (execute_operation client_unreachable RefreshStateOperation) = Inr False
   \<and> status_posts (snd (execute_operation client_unreachable RefreshStateOperation)) = 0
   \<and> fst (execute_operation (client_error ''E1'') RefreshStateOperation) = Inr False
   \<and> status_posts (snd (execute_operation (client_error ''E1'') RefreshStateOperation)) = 1
   \<and> fst (execute_operation client_no_result RefreshStateOperation) = Inr False
   \<and> status_posts (snd (execute_operation client_no_result RefreshStateOperation)) = 10"
  using
    execute_operation_failures_return_False
      [of RefreshStateOperation "[]" client_unreachable]
    execute_operation_failures_return_False
      [of RefreshStateOperation "[]" "client_error ''E1''" "''op-1''" "[]" 0
          "\<lparr>result_status = Some ''error'', result_errorCode = Some ''E1''\<rparr>" "[]"]
    execute_operation_failures_return_False
      [of RefreshStateOperation "[]" client_no_result "''op-1''" "[]"]
  by (simp add: client_unreachable_def client_error_def client_no_result_def)

end
